theory Spec2Isabelle
  imports Main
begin

section \<open>The APIList model (models/api\_list.py)\<close>

text \<open>
  The module defines one mapped class, \<open>APIList\<close>, over the table \<open>api_list\<close>, with a
  constructor and two class methods, \<open>get_by_api_key\<close> and \<open>create_api_entry\<close>. The
  embedding follows the module top to bottom: Python values, the process state the
  module reads (environment and clock), the column declarations with their defaults,
  the constructor, the session primitives the methods call, and the two methods.
  What the module leaves to its collaborators (the store's rules, the session's
  configuration) is a parameter of the model.
\<close>

subsection \<open>Python values and errors\<close>

text \<open>
  Text is a list of characters, each standing for the code point of the same number, so
  the model covers text whose code points are below 256. Timestamps are instants,
  counted from some origin.
\<close>

datatype pyval = PyNone | PyInt int | PyStr string | PyDateTime nat

datatype violation =
    NotNullViolation string
  | UniqueViolation string
  | ForeignKeyViolation string

datatype error =
    ValueError
  | TypeError
  | OverflowError
  | DataError
  | IntegrityError violation
  | InvalidRequestError
  | PendingRollbackError

text \<open>
  The process state that the module reads: \<open>os.environ\<close> (after \<open>load_dotenv()\<close>), the
  UTC clock behind \<open>datetime.now(timezone.utc)\<close>, and the interpreter's limit on the
  number of digits \<open>int()\<close> converts (\<open>0\<close>: no limit).
\<close>

record world =
  environ :: "string \<rightharpoonup> string"
  utcnow :: nat
  int_max_str_digits :: nat

text \<open>\<open>os.getenv(key, default)\<close>: the variable's text when it is set, else the default as given.\<close>

definition os_getenv :: "(string \<rightharpoonup> string) \<Rightarrow> string \<Rightarrow> pyval \<Rightarrow> pyval" where
  "os_getenv env key dflt = (case env key of Some v \<Rightarrow> PyStr v | None \<Rightarrow> dflt)"

text \<open>
  The builtin \<open>int(x)\<close> on text. Text that is not all ASCII is first rewritten: a code
  point from 127 on becomes a blank when it is a Unicode space (below 256 these are
  U+0085 and U+00A0), its digit when it is a Unicode decimal digit (below 256 there is
  none), and an invalid character otherwise. Then blanks in the C sense (9 to 13, and
  32) are dropped at both ends, one sign is allowed, and decimal digits follow, where
  single underscores may separate digits. More digits than the interpreter's limit, and
  anything else, is a \<open>ValueError\<close>.
\<close>

definition to_ascii :: "string \<Rightarrow> string" where
  "to_ascii s =
     (if \<forall>c \<in> set s. (of_char c :: nat) < 128 then s
      else map (\<lambda>c. let n = (of_char c :: nat) in
                  if n < 127 then c
                  else if n = 133 \<or> n = 160 then CHR '' ''
                  else CHR ''?'') s)"

definition py_isspace :: "char \<Rightarrow> bool" where
  "py_isspace c = (let n = (of_char c :: nat) in (9 \<le> n \<and> n \<le> 13) \<or> n = 32)"

definition digit_val :: "char \<Rightarrow> int option" where
  "digit_val c =
     (let n = (of_char c :: nat) in if 48 \<le> n \<and> n \<le> 57 then Some (int n - 48) else None)"

fun parse_digits :: "bool \<Rightarrow> int \<Rightarrow> string \<Rightarrow> int option" where
  "parse_digits prev_digit acc [] = (if prev_digit then Some acc else None)"
| "parse_digits prev_digit acc (c # cs) =
     (if c = CHR ''_'' then (if prev_digit then parse_digits False acc cs else None)
      else case digit_val c of
             None \<Rightarrow> None
           | Some d \<Rightarrow> parse_digits True (acc * 10 + d) cs)"

definition too_many_digits :: "nat \<Rightarrow> string \<Rightarrow> bool" where
  "too_many_digits limit ds =
     (let digits = length (filter (\<lambda>c. c \<noteq> CHR ''_'') ds)
      in 640 < digits \<and> 0 < limit \<and> limit < digits)"

definition parse_decimal :: "nat \<Rightarrow> string \<Rightarrow> int option" where
  "parse_decimal limit ds =
     (case parse_digits False 0 ds of
        None \<Rightarrow> None
      | Some v \<Rightarrow> if too_many_digits limit ds then None else Some v)"

definition strip :: "string \<Rightarrow> string" where
  "strip s = rev (dropWhile py_isspace (rev (dropWhile py_isspace s)))"

definition int_of_str :: "nat \<Rightarrow> string \<Rightarrow> int option" where
  "int_of_str limit s =
     (case strip (to_ascii s) of
        [] \<Rightarrow> None
      | c # cs \<Rightarrow>
          if c = CHR ''-'' then map_option uminus (parse_decimal limit cs)
          else if c = CHR ''+'' then parse_decimal limit cs
          else parse_decimal limit (c # cs))"

fun py_int :: "nat \<Rightarrow> pyval \<Rightarrow> error + int" where
  "py_int limit (PyInt i) = Inr i"
| "py_int limit (PyStr s) = (case int_of_str limit s of None \<Rightarrow> Inl ValueError | Some i \<Rightarrow> Inr i)"
| "py_int limit PyNone = Inl TypeError"
| "py_int limit (PyDateTime t) = Inl TypeError"

subsection \<open>The mapped columns\<close>

text \<open>
  One field per \<open>Column\<close> of the class, in the order of the class body. The record is
  used at two types: at \<open>pyval option\<close> for the keyword arguments of the constructor
  (\<open>None\<close>: the keyword is not passed), and at \<open>pyval\<close> for an instance or a table row
  (\<open>PyNone\<close>: the attribute is \<open>None\<close>, the column is NULL).
\<close>

record 'v columns =
  id_col :: 'v
  label :: 'v
  main_table_user_id :: 'v
  api_key :: 'v
  instructions :: 'v
  created_at :: 'v
  last_used_at :: 'v
  total_tokens :: 'v
  tokens_used :: 'v
  tokens_remaining :: 'v
  token_limit_per_day :: 'v

type_synonym kwargs = "pyval option columns"
type_synonym APIList = "pyval columns"

definition no_kwargs :: kwargs where
  "no_kwargs =
     \<lparr>id_col = None, label = None, main_table_user_id = None, api_key = None,
      instructions = None, created_at = None, last_used_at = None, total_tokens = None,
      tokens_used = None, tokens_remaining = None, token_limit_per_day = None\<rparr>"

text \<open>The column types the class body uses.\<close>

datatype coltype = Integer | String | Text | DateTime

text \<open>
  The \<open>default=\<close> arguments of the column declarations. They are Python expressions in
  the class body, so each is evaluated once, when the module is imported, in the world
  of that moment; the resulting values are what every later INSERT uses.
\<close>

record column_defaults =
  created_at_default :: pyval
  total_tokens_default :: pyval
  tokens_used_default :: pyval
  tokens_remaining_default :: pyval

definition APIList_class :: "world \<Rightarrow> column_defaults" where
  "APIList_class w =
     \<lparr>created_at_default = PyDateTime (utcnow w),
      total_tokens_default = os_getenv (environ w) ''FREE_TOKENS'' (PyInt 50000),
      tokens_used_default = PyInt 0,
      tokens_remaining_default = os_getenv (environ w) ''FREE_TOKENS'' (PyInt 50000)\<rparr>"

subsection \<open>The constructor\<close>

text \<open>
  The declarative base constructor sets one attribute per keyword passed; an attribute
  never set reads as \<open>None\<close>.
\<close>

definition attr :: "pyval option \<Rightarrow> pyval" where
  "attr v = (case v of None \<Rightarrow> PyNone | Some x \<Rightarrow> x)"

definition base_init :: "kwargs \<Rightarrow> APIList" where
  "base_init kwargs =
     \<lparr>id_col = attr (id_col kwargs), label = attr (label kwargs),
      main_table_user_id = attr (main_table_user_id kwargs), api_key = attr (api_key kwargs),
      instructions = attr (instructions kwargs), created_at = attr (created_at kwargs),
      last_used_at = attr (last_used_at kwargs), total_tokens = attr (total_tokens kwargs),
      tokens_used = attr (tokens_used kwargs), tokens_remaining = attr (tokens_remaining kwargs),
      token_limit_per_day = attr (token_limit_per_day kwargs)\<rparr>"

text \<open>\<open>APIList.__init__\<close>: the test is on the presence of the keyword, not on its value.\<close>

definition APIList_init :: "kwargs \<Rightarrow> APIList" where
  "APIList_init kwargs =
     (case token_limit_per_day kwargs of
        Some token_limit \<Rightarrow>
          base_init (kwargs\<lparr>tokens_remaining := Some token_limit,
                            total_tokens := Some token_limit\<rparr>)
      | None \<Rightarrow> base_init kwargs)"

subsection \<open>The store\<close>

text \<open>
  The rules of the database behind the session that the module does not fix: whether
  foreign keys and the declared length of \<open>String(64)\<close> are checked; the width of an
  \<open>Integer\<close> column and the error raised for an integer outside it; what becomes of a
  value bound to a column of another type than its own (for one, the text that the
  environment gives as a column default); the collation, as the function that maps text
  to what the store compares; and the key given to a row inserted without one, from
  the number of keys handed out so far and the rows the transaction sees.
\<close>

record backend =
  enforce_fk :: bool
  enforce_length :: bool
  integer_bits :: nat
  overflow_error :: error
  coerce :: "coltype \<Rightarrow> pyval \<Rightarrow> error + pyval"
  fold_text :: "string \<Rightarrow> string"
  next_key :: "nat \<Rightarrow> APIList list \<Rightarrow> int"

definition int_fits :: "backend \<Rightarrow> int \<Rightarrow> bool" where
  "int_fits be i = (- (2 ^ (integer_bits be - 1)) \<le> i \<and> i < 2 ^ (integer_bits be - 1))"

text \<open>Binding one value to a column of the given type.\<close>

definition bind_param :: "backend \<Rightarrow> coltype \<Rightarrow> pyval \<Rightarrow> error + pyval" where
  "bind_param be ty v =
     (case v of
        PyNone \<Rightarrow> Inr PyNone
      | PyInt i \<Rightarrow>
          if ty = Integer then (if int_fits be i then Inr v else Inl (overflow_error be))
          else coerce be ty v
      | PyStr s \<Rightarrow> if ty = String \<or> ty = Text then Inr v else coerce be ty v
      | PyDateTime t \<Rightarrow> if ty = DateTime then Inr v else coerce be ty v)"

definition and_then :: "'e + 'a \<Rightarrow> ('a \<Rightarrow> 'e + 'b) \<Rightarrow> 'e + 'b" where
  "and_then m f = (case m of Inl e \<Rightarrow> Inl e | Inr x \<Rightarrow> f x)"

definition bind_row :: "backend \<Rightarrow> APIList \<Rightarrow> error + APIList" where
  "bind_row be obj =
     and_then (bind_param be Integer (id_col obj)) (\<lambda>v1.
     and_then (bind_param be String (label obj)) (\<lambda>v2.
     and_then (bind_param be Integer (main_table_user_id obj)) (\<lambda>v3.
     and_then (bind_param be String (api_key obj)) (\<lambda>v4.
     and_then (bind_param be Text (instructions obj)) (\<lambda>v5.
     and_then (bind_param be DateTime (created_at obj)) (\<lambda>v6.
     and_then (bind_param be DateTime (last_used_at obj)) (\<lambda>v7.
     and_then (bind_param be Integer (total_tokens obj)) (\<lambda>v8.
     and_then (bind_param be Integer (tokens_used obj)) (\<lambda>v9.
     and_then (bind_param be Integer (tokens_remaining obj)) (\<lambda>v10.
     and_then (bind_param be Integer (token_limit_per_day obj)) (\<lambda>v11.
       Inr \<lparr>id_col = v1, label = v2, main_table_user_id = v3, api_key = v4,
            instructions = v5, created_at = v6, last_used_at = v7, total_tokens = v8,
            tokens_used = v9, tokens_remaining = v10,
            token_limit_per_day = v11\<rparr>)))))))))))"

definition or_default :: "pyval \<Rightarrow> pyval \<Rightarrow> pyval" where
  "or_default v d = (if v = PyNone then d else v)"

text \<open>
  The row an INSERT of an instance binds: an attribute that is \<open>None\<close> takes the
  column's default where the column declares one, and stays NULL otherwise; then each
  value is bound to its column.
\<close>

definition insert_row :: "backend \<Rightarrow> column_defaults \<Rightarrow> APIList \<Rightarrow> error + APIList" where
  "insert_row be cls obj =
     bind_row be
       (obj\<lparr>created_at := or_default (created_at obj) (created_at_default cls),
            total_tokens := or_default (total_tokens obj) (total_tokens_default cls),
            tokens_used := or_default (tokens_used obj) (tokens_used_default cls),
            tokens_remaining :=
              or_default (tokens_remaining obj) (tokens_remaining_default cls)\<rparr>)"

subsection \<open>The persistence session\<close>

text \<open>
  The session is the collaborator the two methods call. Its state is the durable
  content of table \<open>api_list\<close>, the rows its open transaction has inserted and not yet
  committed, the ids present in table \<open>users\<close>, the instances added but not yet
  flushed, the number of keys the store has handed out, and whether its transaction
  is usable (it is not after a flush has failed, until a rollback). Whether the session
  flushes before it queries is its configuration.
\<close>

record session =
  committed :: "APIList list"
  flushed :: "APIList list"
  users :: "int list"
  new :: "APIList list"
  keys_drawn :: nat
  active :: bool
  autoflush :: bool

text \<open>The table as the session's transaction sees it.\<close>

definition table :: "session \<Rightarrow> APIList list" where
  "table db = committed db @ flushed db"

definition db_add :: "session \<Rightarrow> APIList \<Rightarrow> session" where
  "db_add db obj = db\<lparr>new := new db @ [obj]\<rparr>"

text \<open>A row inserted without a key draws one from the store.\<close>

definition assign_key :: "backend \<Rightarrow> session \<Rightarrow> APIList \<Rightarrow> APIList \<times> session" where
  "assign_key be db r =
     (if id_col r = PyNone
      then (r\<lparr>id_col := PyInt (next_key be (keys_drawn db) (table db))\<rparr>,
            db\<lparr>keys_drawn := Suc (keys_drawn db)\<rparr>)
      else (r, db))"

text \<open>A value as the store compares it.\<close>

definition fold_val :: "backend \<Rightarrow> pyval \<Rightarrow> pyval" where
  "fold_val be v = (case v of PyStr s \<Rightarrow> PyStr (fold_text be s) | _ \<Rightarrow> v)"

text \<open>
  The constraints the column declarations put on a row: \<open>String(64)\<close>,
  \<open>nullable=False\<close> on four columns, the primary key, \<open>unique=True\<close> on \<open>api_key\<close>,
  and the foreign key to \<open>users.id\<close>.
\<close>

definition too_long :: "pyval \<Rightarrow> bool" where
  "too_long v = (case v of PyStr s \<Rightarrow> 64 < length s | _ \<Rightarrow> False)"

definition check_row :: "backend \<Rightarrow> session \<Rightarrow> APIList \<Rightarrow> error option" where
  "check_row be db r =
     (if enforce_length be \<and> too_long (api_key r) then Some DataError
      else if label r = PyNone then Some (IntegrityError (NotNullViolation ''label''))
      else if main_table_user_id r = PyNone
        then Some (IntegrityError (NotNullViolation ''main_table_user_id''))
      else if api_key r = PyNone then Some (IntegrityError (NotNullViolation ''api_key''))
      else if created_at r = PyNone then Some (IntegrityError (NotNullViolation ''created_at''))
      else if id_col r \<in> set (map id_col (table db))
        then Some (IntegrityError (UniqueViolation ''id''))
      else if fold_val be (api_key r) \<in> set (map (\<lambda>x. fold_val be (api_key x)) (table db))
        then Some (IntegrityError (UniqueViolation ''api_key''))
      else if enforce_fk be \<and> main_table_user_id r \<notin> set (map PyInt (users db))
        then Some (IntegrityError (ForeignKeyViolation ''main_table_user_id''))
      else None)"

text \<open>
  The session after a flush has raised: the transaction is rolled back, so its
  uncommitted rows are gone, the pending instances are expunged, and the session
  refuses further work until a rollback.
\<close>

definition failed :: "session \<Rightarrow> session" where
  "failed db = db\<lparr>flushed := [], new := [], active := False\<rparr>"

text \<open>
  The INSERT of one instance: bind, draw a key if there is none, check the
  constraints, and add the row to the transaction.
\<close>

definition insert_instance ::
  "backend \<Rightarrow> column_defaults \<Rightarrow> session \<Rightarrow> APIList \<Rightarrow> (error \<times> session) + (session \<times> APIList)"
  where
  "insert_instance be cls db obj =
     (case insert_row be cls obj of
        Inl e \<Rightarrow> Inl (e, failed db)
      | Inr p \<Rightarrow>
          (case assign_key be db p of
             (r, db1) \<Rightarrow>
               (case check_row be db1 r of
                  Some e \<Rightarrow> Inl (e, failed db1)
                | None \<Rightarrow> Inr (db1\<lparr>flushed := flushed db1 @ [r]\<rparr>, r))))"

text \<open>
  Flushing inserts the given instances in order and stops at the first the store
  rejects. It returns the primary keys under which the instances are persisted.
\<close>

fun flush ::
  "backend \<Rightarrow> column_defaults \<Rightarrow> session \<Rightarrow> APIList list
     \<Rightarrow> (error \<times> session) + (session \<times> pyval list)" where
  "flush be cls db [] = Inr (db, [])"
| "flush be cls db (obj # objs) =
     (case insert_instance be cls db obj of
        Inl x \<Rightarrow> Inl x
      | Inr (db1, r) \<Rightarrow>
          (case flush be cls db1 objs of
             Inl x \<Rightarrow> Inl x
           | Inr (db', keys) \<Rightarrow> Inr (db', id_col r # keys)))"

definition db_flush ::
  "backend \<Rightarrow> column_defaults \<Rightarrow> session \<Rightarrow> (error \<times> session) + (session \<times> pyval list)" where
  "db_flush be cls db =
     (case flush be cls db (new db) of
        Inl x \<Rightarrow> Inl x
      | Inr (db', keys) \<Rightarrow> Inr (db'\<lparr>new := []\<rparr>, keys))"

text \<open>
  \<open>db.commit()\<close>: flush, then make the rows of the transaction durable. After it the
  instances are expired: the caller holds their identity, which is the primary key,
  and none of their attributes.
\<close>

definition db_commit ::
  "backend \<Rightarrow> column_defaults \<Rightarrow> session \<Rightarrow> (error \<times> session) + (session \<times> pyval list)" where
  "db_commit be cls db =
     (if \<not> active db then Inl (PendingRollbackError, db)
      else case db_flush be cls db of
             Inl x \<Rightarrow> Inl x
           | Inr (db', keys) \<Rightarrow>
               Inr (db'\<lparr>committed := committed db' @ flushed db', flushed := []\<rparr>, keys))"

text \<open>What a session does before it reads: nothing, or a flush when it is configured so.\<close>

definition before_read ::
  "backend \<Rightarrow> column_defaults \<Rightarrow> session \<Rightarrow> (error \<times> session) + session" where
  "before_read be cls db =
     (if \<not> active db then Inl (PendingRollbackError, db)
      else if autoflush db
        then (case db_flush be cls db of Inl x \<Rightarrow> Inl x | Inr (db', keys) \<Rightarrow> Inr db')
      else Inr db)"

text \<open>
  \<open>db.refresh(obj)\<close>: load the attributes of the instance with the given identity from
  its row.
\<close>

definition db_refresh ::
  "backend \<Rightarrow> column_defaults \<Rightarrow> session \<Rightarrow> pyval \<Rightarrow> (error \<times> session) + (session \<times> APIList)" where
  "db_refresh be cls db key =
     (case before_read be cls db of
        Inl x \<Rightarrow> Inl x
      | Inr db' \<Rightarrow>
          (case find (\<lambda>r. id_col r = key) (table db') of
             None \<Rightarrow> Inl (InvalidRequestError, db')
           | Some r \<Rightarrow> Inr (db', r)))"

text \<open>
  \<open>db.query(cls).filter(pred).first()\<close>: the first row of the table the predicate
  holds for, or \<open>None\<close>.
\<close>

definition db_query_first ::
  "backend \<Rightarrow> column_defaults \<Rightarrow> session \<Rightarrow> (APIList \<Rightarrow> bool)
     \<Rightarrow> (error \<times> session) + (session \<times> APIList option)" where
  "db_query_first be cls db pred =
     (case before_read be cls db of
        Inl x \<Rightarrow> Inl x
      | Inr db' \<Rightarrow> Inr (db', find pred (table db')))"

subsection \<open>The class methods\<close>

text \<open>The filter \<open>cls.api_key == api_key\<close> is an equality the store decides.\<close>

definition get_by_api_key ::
  "backend \<Rightarrow> column_defaults \<Rightarrow> session \<Rightarrow> string
     \<Rightarrow> (error \<times> session) + (session \<times> APIList option)" where
  "get_by_api_key be cls db key =
     db_query_first be cls db (\<lambda>r. fold_val be (api_key r) = fold_val be (PyStr key))"

text \<open>A Python argument of type \<open>Optional[str]\<close> as a value.\<close>

definition py_opt_str :: "string option \<Rightarrow> pyval" where
  "py_opt_str s = (case s of None \<Rightarrow> PyNone | Some x \<Rightarrow> PyStr x)"

text \<open>\<open>int(os.getenv("FREE_TOKENS", "1000"))\<close>, read in the world of the call.\<close>

definition free_tokens :: "world \<Rightarrow> error + int" where
  "free_tokens w =
     py_int (int_max_str_digits w) (os_getenv (environ w) ''FREE_TOKENS'' (PyStr ''1000''))"

text \<open>
  \<open>token_limit or int(os.getenv(...))\<close>: the right operand is evaluated, and used,
  exactly when the left one is falsy, that is \<open>None\<close> or \<open>0\<close>.
\<close>

definition token_limit_or_default :: "world \<Rightarrow> int option \<Rightarrow> error + int" where
  "token_limit_or_default w token_limit =
     (case token_limit of
        None \<Rightarrow> free_tokens w
      | Some t \<Rightarrow> if t \<noteq> 0 then Inr t else free_tokens w)"

definition create_api_entry ::
  "backend \<Rightarrow> column_defaults \<Rightarrow> world \<Rightarrow> session \<Rightarrow> int \<Rightarrow> string \<Rightarrow> string option
     \<Rightarrow> string option \<Rightarrow> int option \<Rightarrow> (error \<times> session) + (session \<times> APIList)" where
  "create_api_entry be cls w db user_id key instr lbl token_limit =
     (case token_limit_or_default w token_limit of
        Inl e \<Rightarrow> Inl (e, db)
      | Inr limit \<Rightarrow>
          (let api_entry = APIList_init
                 (no_kwargs\<lparr>main_table_user_id := Some (PyInt user_id),
                            label := Some (py_opt_str lbl),
                            api_key := Some (PyStr key),
                            instructions := Some (py_opt_str instr),
                            token_limit_per_day := Some (PyInt limit)\<rparr>)
           in case db_commit be cls (db_add db api_entry) of
                Inl x \<Rightarrow> Inl x
              | Inr (db', keys) \<Rightarrow>
                  (case rev keys of
                     [] \<Rightarrow> Inl (InvalidRequestError, db')
                   | identity # _ \<Rightarrow> db_refresh be cls db' identity)))"

subsection \<open>Derived notions\<close>



text \<open>
  The instance \<open>create_api_entry\<close> constructs once the limit is resolved (lemma
  \<open>new_entry\<close> below derives it from the constructor), and the session after the rows of
  its transaction are made durable.
\<close>

definition new_instance :: "int \<Rightarrow> string \<Rightarrow> string option \<Rightarrow> string option \<Rightarrow> int \<Rightarrow> APIList" where
  "new_instance user_id key instr lbl limit =
     \<lparr>id_col = PyNone, label = py_opt_str lbl, main_table_user_id = PyInt user_id,
      api_key = PyStr key, instructions = py_opt_str instr, created_at = PyNone,
      last_used_at = PyNone, total_tokens = PyInt limit, tokens_used = PyNone,
      tokens_remaining = PyInt limit, token_limit_per_day = PyInt limit\<rparr>"

definition commit_rows :: "session \<Rightarrow> session" where
  "commit_rows db = db\<lparr>new := [], committed := committed db @ flushed db, flushed := []\<rparr>"

subsection \<open>Example data\<close>

text \<open>
  A store with 64-bit integers that checks foreign keys and lengths, compares text
  exactly and numbers its rows from 1; a process whose environment does not set
  \<open>FREE_TOKENS\<close>; a session with the library's default configuration on an empty table
  with one user; and the row a first call creates there with a given limit.
\<close>

definition example_backend :: backend where
  "example_backend =
     \<lparr>enforce_fk = True, enforce_length = True, integer_bits = 64,
      overflow_error = OverflowError, coerce = (\<lambda>ty v. Inl DataError),
      fold_text = (\<lambda>s. s), next_key = (\<lambda>n rs. int n + 1)\<rparr>"

definition example_world :: world where
  "example_world = \<lparr>environ = Map.empty, utcnow = 100, int_max_str_digits = 4300\<rparr>"

definition example_session :: session where
  "example_session =
     \<lparr>committed = [], flushed = [], users = [1], new = [], keys_drawn = 0, active = True,
      autoflush = True\<rparr>"

definition example_row :: "int \<Rightarrow> APIList" where
  "example_row limit =
     \<lparr>id_col = PyInt 1, label = PyStr ''first'', main_table_user_id = PyInt 1,
      api_key = PyStr ''abc123'', instructions = PyNone, created_at = PyDateTime 100,
      last_used_at = PyNone, total_tokens = PyInt limit, tokens_used = PyInt 0,
      tokens_remaining = PyInt limit, token_limit_per_day = PyInt limit\<rparr>"

section \<open>Properties\<close>

subsection \<open>The environment default and binding\<close>

lemma int_of_str_1000: "int_of_str limit ''1000'' = Some 1000"
  by (simp add: int_of_str_def to_ascii_def strip_def py_isspace_def digit_val_def
      parse_decimal_def too_many_digits_def)

lemma free_tokens_unset: "environ w ''FREE_TOKENS'' = None \<Longrightarrow> free_tokens w = Inr 1000"
  by (simp add: free_tokens_def os_getenv_def int_of_str_1000)

lemma bind_param_None [simp]: "bind_param be ty PyNone = Inr PyNone"
  by (simp add: bind_param_def)

lemma bind_param_Integer:
  "bind_param be Integer (PyInt i) = (if int_fits be i then Inr (PyInt i) else Inl (overflow_error be))"
  by (simp add: bind_param_def)

lemma bind_param_String [simp]: "bind_param be String (PyStr s) = Inr (PyStr s)"
  by (simp add: bind_param_def)

lemma bind_param_Text [simp]: "bind_param be Text (PyStr s) = Inr (PyStr s)"
  by (simp add: bind_param_def)

lemma bind_param_DateTime [simp]: "bind_param be DateTime (PyDateTime t) = Inr (PyDateTime t)"
  by (simp add: bind_param_def)

lemma int_fits_0 [simp]: "int_fits be 0"
  by (simp add: int_fits_def)

lemma bind_row_Inr:
  assumes "bind_row be obj = Inr p"
  shows "bind_param be Integer (id_col obj) = Inr (id_col p)"
    and "bind_param be String (label obj) = Inr (label p)"
    and "bind_param be Integer (main_table_user_id obj) = Inr (main_table_user_id p)"
    and "bind_param be String (api_key obj) = Inr (api_key p)"
    and "bind_param be Text (instructions obj) = Inr (instructions p)"
    and "bind_param be DateTime (created_at obj) = Inr (created_at p)"
    and "bind_param be DateTime (last_used_at obj) = Inr (last_used_at p)"
    and "bind_param be Integer (total_tokens obj) = Inr (total_tokens p)"
    and "bind_param be Integer (tokens_used obj) = Inr (tokens_used p)"
    and "bind_param be Integer (tokens_remaining obj) = Inr (tokens_remaining p)"
    and "bind_param be Integer (token_limit_per_day obj) = Inr (token_limit_per_day p)"
  using assms unfolding bind_row_def and_then_def
  by (auto split: sum.splits)

subsection \<open>Flushing\<close>

lemma table_simps [simp]:
  "table (db\<lparr>new := n\<rparr>) = table db"
  "table (db\<lparr>keys_drawn := k\<rparr>) = table db"
  "table (db\<lparr>flushed := f\<rparr>) = committed db @ f"
  by (simp_all add: table_def)

lemma check_row_new [simp]: "check_row be (db\<lparr>new := n\<rparr>) r = check_row be db r"
  by (simp add: check_row_def)

lemma check_row_keys_drawn [simp]: "check_row be (db\<lparr>keys_drawn := k\<rparr>) r = check_row be db r"
  by (simp add: check_row_def)

lemma assign_key_new:
  "assign_key be (db\<lparr>new := n\<rparr>) p = (case assign_key be db p of (r, d) \<Rightarrow> (r, d\<lparr>new := n\<rparr>))"
  by (simp add: assign_key_def)

lemma failed_new [simp]: "failed (db\<lparr>new := n\<rparr>) = failed db"
  by (simp add: failed_def)

lemma assign_key_fields:
  assumes "assign_key be db p = (r, d)"
  shows "table d = table db" "committed d = committed db" "flushed d = flushed db"
    "users d = users db" "new d = new db" "active d = active db" "autoflush d = autoflush db"
    "check_row be d = check_row be db"
    "r = p\<lparr>id_col := id_col r\<rparr>"
    "id_col p \<noteq> PyNone \<Longrightarrow> r = p"
  using assms by (auto simp: assign_key_def table_def fun_eq_iff split: if_splits)

lemma insert_instance_new:
  "insert_instance be cls (db\<lparr>new := n\<rparr>) obj =
     (case insert_instance be cls db obj of
        Inl x \<Rightarrow> Inl x
      | Inr (d, r) \<Rightarrow> Inr (d\<lparr>new := n\<rparr>, r))"
proof (cases "insert_row be cls obj")
  case (Inl e)
  then show ?thesis by (simp add: insert_instance_def)
next
  case (Inr p)
  obtain r d where a: "assign_key be db p = (r, d)" by (cases "assign_key be db p")
  then have a': "assign_key be (db\<lparr>new := n\<rparr>) p = (r, d\<lparr>new := n\<rparr>)"
    by (simp add: assign_key_new)
  show ?thesis
    by (cases "check_row be d r") (simp_all add: insert_instance_def Inr a a')
qed

lemma flush_new:
  "flush be cls (db\<lparr>new := n\<rparr>) objs =
     (case flush be cls db objs of Inl x \<Rightarrow> Inl x | Inr (d, ks) \<Rightarrow> Inr (d\<lparr>new := n\<rparr>, ks))"
proof (induction objs arbitrary: db)
  case Nil
  show ?case by simp
next
  case (Cons obj objs)
  show ?case
  proof (cases "insert_instance be cls db obj")
    case (Inl x)
    then show ?thesis by (simp add: insert_instance_new)
  next
    case (Inr y)
    obtain d r where y: "y = (d, r)" by (cases y)
    show ?thesis
      by (cases "flush be cls d objs") (auto simp: insert_instance_new Inr y Cons.IH)
  qed
qed

lemma flush_append:
  "flush be cls db (xs @ ys) =
     (case flush be cls db xs of
        Inl x \<Rightarrow> Inl x
      | Inr (db1, ks) \<Rightarrow>
          (case flush be cls db1 ys of
             Inl x \<Rightarrow> Inl x
           | Inr (db2, ks') \<Rightarrow> Inr (db2, ks @ ks')))"
proof (induction xs arbitrary: db)
  case Nil
  show ?case by (simp split: sum.splits)
next
  case (Cons x xs)
  show ?case
  proof (cases "insert_instance be cls db x")
    case (Inl e)
    then show ?thesis by simp
  next
    case (Inr y)
    obtain d r where y: "y = (d, r)" by (cases y)
    show ?thesis
      by (simp add: Inr y Cons.IH split: sum.splits)
  qed
qed

text \<open>What a successful INSERT leaves, and what a failed one leaves.\<close>

lemma insert_instance_Inr:
  assumes "insert_instance be cls db obj = Inr (db1, r)"
  shows "\<exists>p d. insert_row be cls obj = Inr p \<and> assign_key be db p = (r, d)
           \<and> check_row be db r = None
           \<and> db1 = db\<lparr>flushed := flushed db @ [r], keys_drawn := keys_drawn db1\<rparr>"
proof -
  from assms obtain p where p: "insert_row be cls obj = Inr p"
    by (auto simp: insert_instance_def split: sum.splits)
  obtain r' d where a: "assign_key be db p = (r', d)" by (cases "assign_key be db p")
  from assms p a have ok: "check_row be d r' = None" and r: "r' = r"
    and db1: "db1 = d\<lparr>flushed := flushed d @ [r]\<rparr>"
    by (auto simp: insert_instance_def split: option.splits)
  from a have d: "d = db\<lparr>keys_drawn := keys_drawn d\<rparr>"
    by (auto simp: assign_key_def split: if_splits)
  have "check_row be db r = None"
    using ok r assign_key_fields(8) [OF a] by simp
  moreover have "db1 = db\<lparr>flushed := flushed db @ [r], keys_drawn := keys_drawn db1\<rparr>"
    by (subst db1, subst (1 2) d) (simp add: db1)
  ultimately show ?thesis using p a r by blast
qed


lemma flush_Inr:
  assumes "flush be cls db objs = Inr (db1, ks)"
  shows "\<exists>rs. db1 = db\<lparr>flushed := flushed db @ rs, keys_drawn := keys_drawn db1\<rparr>
           \<and> map id_col rs = ks"
  using assms
proof (induction objs arbitrary: db db1 ks)
  case Nil
  then show ?case by auto
next
  case (Cons obj objs)
  from Cons.prems obtain d r ks' where
    one: "insert_instance be cls db obj = Inr (d, r)" and
    rest: "flush be cls d objs = Inr (db1, ks')" and
    ks: "ks = id_col r # ks'"
    by (auto split: sum.splits)
  from insert_instance_Inr [OF one]
  have d: "d = db\<lparr>flushed := flushed db @ [r], keys_drawn := keys_drawn d\<rparr>"
    by blast
  from Cons.IH [OF rest] obtain rs where
    db1: "db1 = d\<lparr>flushed := flushed d @ rs, keys_drawn := keys_drawn db1\<rparr>" and
    rs: "map id_col rs = ks'"
    by auto
  have "db1 = db\<lparr>flushed := flushed db @ (r # rs), keys_drawn := keys_drawn db1\<rparr>"
    by (subst db1, subst (1 2) d) simp
  with rs ks show ?case by auto
qed


subsection \<open>Uniqueness is kept by every INSERT\<close>

lemma check_row_api_key_fresh:
  "check_row be db r = None
     \<Longrightarrow> fold_val be (api_key r) \<notin> set (map (\<lambda>x. fold_val be (api_key x)) (table db))"
  by (simp add: check_row_def split: if_splits)

lemma check_row_id_fresh:
  "check_row be db r = None \<Longrightarrow> id_col r \<notin> set (map id_col (table db))"
  by (simp add: check_row_def split: if_splits)

lemma check_row_label: "check_row be db r = None \<Longrightarrow> label r \<noteq> PyNone"
  by (simp add: check_row_def split: if_splits)






subsection \<open>What \<open>create_api_entry\<close> computes\<close>

lemma new_entry:
  "APIList_init
     (no_kwargs\<lparr>main_table_user_id := Some (PyInt user_id), label := Some (py_opt_str lbl),
                api_key := Some (PyStr key), instructions := Some (py_opt_str instr),
                token_limit_per_day := Some (PyInt limit)\<rparr>) =
   new_instance user_id key instr lbl limit"
  by (simp add: APIList_init_def base_init_def no_kwargs_def attr_def new_instance_def)

lemma find_appended:
  "\<forall>x \<in> set rs. \<not> P x \<Longrightarrow> P r \<Longrightarrow> find P (rs @ [r]) = Some r"
  by (induction rs) auto

lemma before_read_clean:
  "active db \<Longrightarrow> new db = [] \<Longrightarrow> before_read be cls db = Inr db"
  by (simp add: before_read_def db_flush_def)

lemma commit_new_instance:
  assumes "active db"
  shows "db_commit be cls (db_add db obj) =
     (case flush be cls db (new db) of
        Inl x \<Rightarrow> Inl x
      | Inr (db1, ks) \<Rightarrow>
          (case insert_instance be cls db1 obj of
             Inl x \<Rightarrow> Inl x
           | Inr (db2, r) \<Rightarrow> Inr (commit_rows db2, ks @ [id_col r])))"
proof (cases "flush be cls db (new db)")
  case (Inl x)
  then show ?thesis
    using assms by (simp add: db_commit_def db_flush_def db_add_def flush_new flush_append)
next
  case (Inr y)
  obtain db1 ks where y: "y = (db1, ks)" by (cases y)
  show ?thesis
  proof (cases "insert_instance be cls db1 obj")
    case (Inl x)
    then show ?thesis
      using assms
      by (simp add: db_commit_def db_flush_def db_add_def flush_new flush_append Inr y
          insert_instance_new)
  next
    case one: (Inr z)
    obtain db2 r where z: "z = (db2, r)" by (cases z)
    show ?thesis
      using assms
      by (simp add: db_commit_def db_flush_def db_add_def flush_new flush_append Inr y
          insert_instance_new one z commit_rows_def)
  qed
qed

lemma refresh_committed:
  assumes "insert_instance be cls db1 obj = Inr (db2, r)" and "active db1"
  shows "db_refresh be cls' (commit_rows db2) (id_col r) = Inr (commit_rows db2, r)"
proof -
  from insert_instance_Inr [OF assms(1)] have
    ok: "check_row be db1 r = None" and
    db2: "db2 = db1\<lparr>flushed := flushed db1 @ [r], keys_drawn := keys_drawn db2\<rparr>"
    by blast+
  have tab: "table (commit_rows db2) = table db1 @ [r]"
    by (subst db2) (simp add: commit_rows_def table_def)
  have act: "active (commit_rows db2)"
    using assms(2) by (subst db2) (simp add: commit_rows_def)
  have "\<forall>x \<in> set (table db1). \<not> id_col x = id_col r"
    using check_row_id_fresh [OF ok] by (metis image_eqI set_map)
  then have "find (\<lambda>x. id_col x = id_col r) (table db1 @ [r]) = Some r"
    by (rule find_appended) simp
  moreover have "before_read be cls' (commit_rows db2) = Inr (commit_rows db2)"
    using act by (rule before_read_clean) (simp add: commit_rows_def)
  ultimately show ?thesis
    by (simp add: db_refresh_def tab)
qed

lemma create_api_entry_eq:
  "create_api_entry be cls w db user_id key instr lbl token_limit =
     (case token_limit_or_default w token_limit of
        Inl e \<Rightarrow> Inl (e, db)
      | Inr limit \<Rightarrow>
          if \<not> active db
          then Inl (PendingRollbackError, db_add db (new_instance user_id key instr lbl limit))
          else
            (case flush be cls db (new db) of
               Inl x \<Rightarrow> Inl x
             | Inr (db1, ks) \<Rightarrow>
                 (case insert_instance be cls db1 (new_instance user_id key instr lbl limit) of
                    Inl x \<Rightarrow> Inl x
                  | Inr (db2, r) \<Rightarrow> Inr (commit_rows db2, r))))"
proof (cases "token_limit_or_default w token_limit")
  case (Inl e)
  then show ?thesis by (simp add: create_api_entry_def)
next
  case limit: (Inr limit)
  let ?obj = "new_instance user_id key instr lbl limit"
  show ?thesis
  proof (cases "active db")
    case False
    then show ?thesis
      by (simp add: create_api_entry_def limit new_entry db_commit_def db_add_def)
  next
    case True
    note commit = commit_new_instance [OF True, of be cls ?obj]
    show ?thesis
    proof (cases "flush be cls db (new db)")
      case (Inl x)
      then show ?thesis
        using True by (simp add: create_api_entry_def limit new_entry commit)
    next
      case (Inr y)
      obtain db1 ks where y: "y = (db1, ks)" by (cases y)
      from flush_Inr [OF Inr [unfolded y]] obtain rs where
        "db1 = db\<lparr>flushed := flushed db @ rs, keys_drawn := keys_drawn db1\<rparr>"
        by blast
      then have act1: "active db1"
        using True by (metis session.select_convs(6) session.surjective session.update_convs(2,5))
      show ?thesis
      proof (cases "insert_instance be cls db1 ?obj")
        case (Inl x)
        then show ?thesis
          using True by (simp add: create_api_entry_def limit new_entry commit Inr y)
      next
        case one: (Inr z)
        obtain db2 r where z: "z = (db2, r)" by (cases z)
        from refresh_committed [OF one [unfolded z] act1]
        show ?thesis
          using True by (simp add: create_api_entry_def limit new_entry commit Inr y one z)
      qed
    qed
  qed
qed

lemma bind_param_Integer_Inr:
  "bind_param be Integer (PyInt i) = Inr v \<Longrightarrow> v = PyInt i \<and> int_fits be i"
  by (simp add: bind_param_def split: if_splits)

lemma bind_param_opt_str:
  "bind_param be String (py_opt_str s) = Inr (py_opt_str s)"
  "bind_param be Text (py_opt_str s) = Inr (py_opt_str s)"
  by (simp_all add: py_opt_str_def split: option.splits)

text \<open>The row that the INSERT of the new instance stores.\<close>

lemma insert_new_instance:
  assumes "insert_instance be cls db1 (new_instance user_id key instr lbl limit) = Inr (db2, r)"
  shows "label r = py_opt_str lbl" "main_table_user_id r = PyInt user_id"
    "api_key r = PyStr key" "instructions r = py_opt_str instr" "last_used_at r = PyNone"
    "total_tokens r = PyInt limit" "tokens_remaining r = PyInt limit"
    "token_limit_per_day r = PyInt limit"
    "id_col r = PyInt (next_key be (keys_drawn db1) (table db1))"
    "bind_param be DateTime (created_at_default cls) = Inr (created_at r)"
    "bind_param be Integer (tokens_used_default cls) = Inr (tokens_used r)"
    "int_fits be user_id" "int_fits be limit"
proof -
  let ?obj = "new_instance user_id key instr lbl limit"
  from insert_instance_Inr [OF assms] obtain p d where
    p: "insert_row be cls ?obj = Inr p" and
    a: "assign_key be db1 p = (r, d)"
    by blast
  note b = bind_row_Inr [OF p [unfolded insert_row_def]]
  from b(1) have id: "id_col p = PyNone"
    by (simp add: new_instance_def)
  with a have r: "r = p\<lparr>id_col := PyInt (next_key be (keys_drawn db1) (table db1))\<rparr>"
    by (simp add: assign_key_def)
  from b(2) show "label r = py_opt_str lbl"
    by (simp add: r new_instance_def bind_param_opt_str)
  from b(3) show "main_table_user_id r = PyInt user_id" "int_fits be user_id"
    by (auto simp: r new_instance_def dest: bind_param_Integer_Inr)
  from b(4) show "api_key r = PyStr key"
    by (simp add: r new_instance_def)
  from b(5) show "instructions r = py_opt_str instr"
    by (simp add: r new_instance_def bind_param_opt_str)
  from b(7) show "last_used_at r = PyNone"
    by (simp add: r new_instance_def)
  from b(8) show "total_tokens r = PyInt limit" "int_fits be limit"
    by (auto simp: r new_instance_def or_default_def dest: bind_param_Integer_Inr)
  from b(10) show "tokens_remaining r = PyInt limit"
    by (auto simp: r new_instance_def or_default_def dest: bind_param_Integer_Inr)
  from b(11) show "token_limit_per_day r = PyInt limit"
    by (auto simp: r new_instance_def dest: bind_param_Integer_Inr)
  show "id_col r = PyInt (next_key be (keys_drawn db1) (table db1))"
    by (simp add: r)
  from b(6) show "bind_param be DateTime (created_at_default cls) = Inr (created_at r)"
    by (simp add: r new_instance_def or_default_def)
  from b(9) show "bind_param be Integer (tokens_used_default cls) = Inr (tokens_used r)"
    by (simp add: r new_instance_def or_default_def)
qed

lemma insert_new_instance_class:
  assumes "insert_instance be (APIList_class w0) db1 (new_instance user_id key instr lbl limit)
             = Inr (db2, r)"
  shows "created_at r = PyDateTime (utcnow w0)" "tokens_used r = PyInt 0"
  using insert_new_instance(10,11) [OF assms]
  by (auto simp: APIList_class_def dest: bind_param_Integer_Inr)

text \<open>A successful call, taken apart.\<close>

lemma create_api_entry_Inr:
  assumes "create_api_entry be cls w db user_id key instr lbl token_limit = Inr (db', r)"
  shows "\<exists>limit db1 ks db2.
           active db
           \<and> token_limit_or_default w token_limit = Inr limit
           \<and> flush be cls db (new db) = Inr (db1, ks)
           \<and> insert_instance be cls db1 (new_instance user_id key instr lbl limit) = Inr (db2, r)
           \<and> db' = commit_rows db2"
  using assms unfolding create_api_entry_eq
  by (auto split: sum.splits if_splits)

text \<open>The session a successful call leaves.\<close>

lemma create_api_entry_session:
  assumes "flush be cls db (new db) = Inr (db1, ks)"
    and "insert_instance be cls db1 obj = Inr (db2, r)"
  shows "\<exists>earlier. committed (commit_rows db2) = committed db @ flushed db @ earlier @ [r]
           \<and> table db1 = table db @ earlier \<and> map id_col earlier = ks"
    and "flushed (commit_rows db2) = []" and "new (commit_rows db2) = []"
    and "active (commit_rows db2) = active db"
    and "autoflush (commit_rows db2) = autoflush db"
    and "users (commit_rows db2) = users db"
    and "table (commit_rows db2) = table db1 @ [r]"
    and "check_row be db1 r = None"
proof -
  from flush_Inr [OF assms(1)] obtain rs where
    db1: "db1 = db\<lparr>flushed := flushed db @ rs, keys_drawn := keys_drawn db1\<rparr>" and
    rs: "map id_col rs = ks"
    by blast
  from insert_instance_Inr [OF assms(2)] have
    ok: "check_row be db1 r = None" and
    db2: "db2 = db1\<lparr>flushed := flushed db1 @ [r], keys_drawn := keys_drawn db2\<rparr>"
    by blast+
  have f1: "flushed db1 = flushed db @ rs" "committed db1 = committed db"
    "active db1 = active db" "autoflush db1 = autoflush db" "users db1 = users db"
    by (subst db1, simp)+
  have f2: "flushed db2 = flushed db1 @ [r]" "committed db2 = committed db1"
    "active db2 = active db1" "autoflush db2 = autoflush db1" "users db2 = users db1"
    by (subst db2, simp)+
  have "committed (commit_rows db2) = committed db @ flushed db @ rs @ [r]"
    by (simp add: commit_rows_def f1 f2)
  moreover have "table db1 = table db @ rs"
    by (simp add: table_def f1)
  ultimately show "\<exists>earlier. committed (commit_rows db2) = committed db @ flushed db @ earlier @ [r]
           \<and> table db1 = table db @ earlier \<and> map id_col earlier = ks"
    using rs by blast
  show "flushed (commit_rows db2) = []" "new (commit_rows db2) = []"
    by (simp_all add: commit_rows_def)
  show "active (commit_rows db2) = active db" "autoflush (commit_rows db2) = autoflush db"
    "users (commit_rows db2) = users db"
    by (simp_all add: commit_rows_def f1 f2)
  show "table (commit_rows db2) = table db1 @ [r]"
    by (simp add: commit_rows_def table_def f1 f2)
  show "check_row be db1 r = None" by (rule ok)
qed

section \<open>The claims\<close>

subsection \<open>Calls on the example data\<close>

text \<open>The first call on the example data, and which integers the example store takes.\<close>

lemma example_create:
  assumes "token_limit_or_default w token_limit = Inr limit" and "int_fits example_backend limit"
  shows "create_api_entry example_backend (APIList_class example_world) w example_session 1
           ''abc123'' None (Some ''first'') token_limit =
         Inr (example_session\<lparr>committed := [example_row limit], keys_drawn := 1\<rparr>,
              example_row limit)"
proof -
  have "int_fits example_backend 1"
    by (simp add: int_fits_def example_backend_def)
  with assms(2) show ?thesis
    unfolding create_api_entry_eq example_backend_def
    by (simp add: assms(1) example_session_def example_world_def example_row_def
      APIList_class_def check_row_def py_opt_str_def too_long_def insert_instance_def
      insert_row_def bind_row_def and_then_def bind_param_Integer or_default_def
      new_instance_def assign_key_def commit_rows_def table_def fold_val_def)
qed

lemma int_fits_example: "- (2 ^ 63) \<le> i \<Longrightarrow> i < 2 ^ 63 \<Longrightarrow> int_fits example_backend i"
  by (simp add: int_fits_def example_backend_def)

subsection \<open>Token budget of a new record\<close>

text \<open>
  C1, as stated, fails: a call that supplies \<open>token_limit = 0\<close> does not get \<open>0\<close> written
  to \<open>total_tokens\<close> and \<open>tokens_remaining\<close>. With \<open>FREE_TOKENS\<close> unset the call succeeds
  and both fields hold \<open>1000\<close>.
\<close>

theorem create_api_entry_zero_limit_counterexample:
  "\<not> isl (create_api_entry example_backend (APIList_class example_world) example_world
            example_session 1 ''abc123'' None (Some ''first'') (Some 0))
   \<and> total_tokens (snd (projr (create_api_entry example_backend (APIList_class example_world)
        example_world example_session 1 ''abc123'' None (Some ''first'') (Some 0)))) = PyInt 1000
   \<and> tokens_remaining (snd (projr (create_api_entry example_backend
        (APIList_class example_world) example_world example_session 1 ''abc123'' None
        (Some ''first'') (Some 0)))) = PyInt 1000
   \<and> PyInt 1000 \<noteq> PyInt 0"
proof -
  have "token_limit_or_default example_world (Some 0) = Inr 1000"
    by (simp add: token_limit_or_default_def free_tokens_unset example_world_def)
  moreover have "int_fits example_backend 1000"
    by (rule int_fits_example) simp_all
  ultimately have "create_api_entry example_backend (APIList_class example_world) example_world
      example_session 1 ''abc123'' None (Some ''first'') (Some 0)
      = Inr (example_session\<lparr>committed := [example_row 1000], keys_drawn := 1\<rparr>,
             example_row 1000)"
    by (rule example_create)
  then show ?thesis
    by (simp add: example_row_def)
qed

text \<open>
  C1 (amended): for every call to \<open>create_api_entry\<close> that returns a record, the resolved
  token limit is written to both \<open>total_tokens\<close> and \<open>tokens_remaining\<close>, and
  \<open>tokens_used\<close> is \<open>0\<close>, where the resolved limit is the supplied \<open>token_limit\<close> if one
  is given and is not \<open>0\<close>, and otherwise the free-tier default read from the
  environment at the call.
\<close>

theorem create_api_entry_token_fields:
  assumes "create_api_entry be (APIList_class w0) w db user_id key instr lbl token_limit
             = Inr (db', r)"
  shows "\<exists>limit.
           (if token_limit = None \<or> token_limit = Some 0 then free_tokens w = Inr limit
            else token_limit = Some limit)
           \<and> total_tokens r = PyInt limit \<and> tokens_remaining r = PyInt limit
           \<and> tokens_used r = PyInt 0"
proof -
  from create_api_entry_Inr [OF assms] obtain limit db1 db2 where
    limit: "token_limit_or_default w token_limit = Inr limit" and
    one: "insert_instance be (APIList_class w0) db1
            (new_instance user_id key instr lbl limit) = Inr (db2, r)"
    by blast
  from limit have
    "if token_limit = None \<or> token_limit = Some 0 then free_tokens w = Inr limit
     else token_limit = Some limit"
    by (auto simp: token_limit_or_default_def split: option.splits if_splits)
  moreover have
    "total_tokens r = PyInt limit \<and> tokens_remaining r = PyInt limit \<and> tokens_used r = PyInt 0"
    using insert_new_instance(6,7) [OF one] insert_new_instance_class(2) [OF one] by simp
  ultimately show ?thesis by blast
qed

text \<open>The amended C1 at a call with \<open>token_limit = 5000\<close>.\<close>

theorem create_api_entry_token_fields_witness:
  "create_api_entry example_backend (APIList_class example_world) example_world example_session
     1 ''abc123'' None (Some ''first'') (Some 5000)
     = Inr (example_session\<lparr>committed := [example_row 5000], keys_drawn := 1\<rparr>,
            example_row 5000)
   \<and> total_tokens (example_row 5000) = PyInt 5000
   \<and> tokens_remaining (example_row 5000) = PyInt 5000
   \<and> tokens_used (example_row 5000) = PyInt 0"
proof -
  have "token_limit_or_default example_world (Some 5000) = Inr 5000"
    by (simp add: token_limit_or_default_def)
  moreover have "int_fits example_backend 5000"
    by (rule int_fits_example) simp_all
  ultimately
  have c: "create_api_entry example_backend (APIList_class example_world) example_world
      example_session 1 ''abc123'' None (Some ''first'') (Some 5000)
      = Inr (example_session\<lparr>committed := [example_row 5000], keys_drawn := 1\<rparr>,
             example_row 5000)"
    by (rule example_create)
  from create_api_entry_token_fields [OF c] c show ?thesis
    by simp
qed

subsection \<open>Create, then look up\<close>

text \<open>
  C2: whenever \<open>create_api_entry\<close> succeeds, \<open>get_by_api_key\<close> on the resulting session
  with the same key returns the record just created, and its \<open>main_table_user_id\<close>,
  \<open>label\<close> and \<open>instructions\<close> are the values passed to \<open>create_api_entry\<close>.
\<close>

theorem create_then_get_by_api_key:
  assumes "create_api_entry be cls w db user_id key instr lbl token_limit = Inr (db', r)"
  shows "get_by_api_key be cls db' key = Inr (db', Some r)
         \<and> main_table_user_id r = PyInt user_id
         \<and> label r = py_opt_str lbl
         \<and> instructions r = py_opt_str instr"
proof -
  from create_api_entry_Inr [OF assms] obtain limit db1 ks db2 where
    act: "active db" and
    fl: "flush be cls db (new db) = Inr (db1, ks)" and
    one: "insert_instance be cls db1 (new_instance user_id key instr lbl limit) = Inr (db2, r)"
    and db': "db' = commit_rows db2"
    by blast
  note s = create_api_entry_session [OF fl one]
  note f = insert_new_instance [OF one]
  have "\<forall>x \<in> set (table db1). \<not> fold_val be (api_key x) = fold_val be (PyStr key)"
  proof (intro ballI notI)
    fix x
    assume "x \<in> set (table db1)" and "fold_val be (api_key x) = fold_val be (PyStr key)"
    then have "fold_val be (PyStr key) \<in> (\<lambda>x. fold_val be (api_key x)) ` set (table db1)"
      by (metis imageI)
    with check_row_api_key_fresh [OF s(8)] show False
      by (simp add: f(3))
  qed
  then have "find (\<lambda>x. fold_val be (api_key x) = fold_val be (PyStr key)) (table db1 @ [r])
      = Some r"
    by (rule find_appended) (simp add: f(3))
  moreover have "before_read be cls db' = Inr db'"
    using act s(3,4) by (simp add: before_read_clean db')
  ultimately have "get_by_api_key be cls db' key = Inr (db', Some r)"
    by (simp add: get_by_api_key_def db_query_first_def db' s(7))
  with f(1,2,4) show ?thesis by simp
qed

text \<open>C2 at a first call on the example session.\<close>

theorem create_then_get_by_api_key_witness:
  "create_api_entry example_backend (APIList_class example_world) example_world example_session
     1 ''abc123'' None (Some ''first'') (Some 7)
     = Inr (example_session\<lparr>committed := [example_row 7], keys_drawn := 1\<rparr>, example_row 7)
   \<and> get_by_api_key example_backend (APIList_class example_world)
       (example_session\<lparr>committed := [example_row 7], keys_drawn := 1\<rparr>) ''abc123''
     = Inr (example_session\<lparr>committed := [example_row 7], keys_drawn := 1\<rparr>,
            Some (example_row 7))
   \<and> main_table_user_id (example_row 7) = PyInt 1
   \<and> label (example_row 7) = PyStr ''first''
   \<and> instructions (example_row 7) = PyNone"
proof -
  have "token_limit_or_default example_world (Some 7) = Inr 7"
    by (simp add: token_limit_or_default_def)
  moreover have "int_fits example_backend 7"
    by (rule int_fits_example) simp_all
  ultimately
  have c: "create_api_entry example_backend (APIList_class example_world) example_world
      example_session 1 ''abc123'' None (Some ''first'') (Some 7)
      = Inr (example_session\<lparr>committed := [example_row 7], keys_drawn := 1\<rparr>, example_row 7)"
    by (rule example_create)
  from create_then_get_by_api_key [OF c] c show ?thesis
    by (simp add: py_opt_str_def)
qed

subsection \<open>Uniqueness of \<open>api_key\<close>\<close>





text \<open>A call on an example session that the store rejects at its constraint check.\<close>

lemma example_fails:
  assumes "token_limit_or_default w token_limit = Inr limit" and "int_fits example_backend limit"
    and "int_fits example_backend user_id"
    and "check_row example_backend (db\<lparr>keys_drawn := Suc (keys_drawn db)\<rparr>)
           \<lparr>id_col = PyInt (int (keys_drawn db) + 1), label = py_opt_str lbl,
            main_table_user_id = PyInt user_id, api_key = PyStr key, instructions = PyNone,
            created_at = PyDateTime 100, last_used_at = PyNone, total_tokens = PyInt limit,
            tokens_used = PyInt 0, tokens_remaining = PyInt limit,
            token_limit_per_day = PyInt limit\<rparr> = Some e"
    and "active db" and "new db = []"
  shows "create_api_entry example_backend (APIList_class example_world) w db user_id key None
           lbl token_limit = Inl (e, failed (db\<lparr>keys_drawn := Suc (keys_drawn db)\<rparr>))"
proof -
  have row: "insert_row example_backend (APIList_class example_world)
      (new_instance user_id key None lbl limit) =
      Inr \<lparr>id_col = PyNone, label = py_opt_str lbl,
            main_table_user_id = PyInt user_id, api_key = PyStr key, instructions = PyNone,
            created_at = PyDateTime 100, last_used_at = PyNone, total_tokens = PyInt limit,
            tokens_used = PyInt 0, tokens_remaining = PyInt limit,
            token_limit_per_day = PyInt limit\<rparr>"
    using assms(2,3)
    by (simp add: insert_row_def bind_row_def and_then_def new_instance_def or_default_def
        APIList_class_def example_world_def bind_param_Integer bind_param_opt_str)
      (simp add: py_opt_str_def)
  have "insert_instance example_backend (APIList_class example_world) db
      (new_instance user_id key None lbl limit)
      = Inl (e, failed (db\<lparr>keys_drawn := Suc (keys_drawn db)\<rparr>))"
    using assms(4)
    by (simp add: insert_instance_def row assign_key_def) (simp add: example_backend_def)
  then show ?thesis
    by (simp add: create_api_entry_eq assms(1,5,6))
qed




subsection \<open>Lookup by key\<close>






subsection \<open>The label\<close>

text \<open>
  C5 does not hold of the code: the method's signature and docstring make \<open>label\<close>
  optional, but the column is declared \<open>nullable=False\<close>. The call
  \<open>create_api_entry(db, 1, "abc123")\<close> on an empty table raises the NOT NULL violation
  on \<open>label\<close> instead of returning a record.
\<close>

theorem create_api_entry_label_omitted:
  "create_api_entry example_backend (APIList_class example_world) example_world example_session
     1 ''abc123'' None None None
   = Inl (IntegrityError (NotNullViolation ''label''),
          failed (example_session\<lparr>keys_drawn := 1\<rparr>))"
proof -
  have t: "token_limit_or_default example_world None = Inr 1000"
    by (simp add: token_limit_or_default_def free_tokens_unset example_world_def)
  have f: "int_fits example_backend 1000" "int_fits example_backend 1"
    by (rule int_fits_example, simp, simp)+
  have "check_row example_backend (example_session\<lparr>keys_drawn := Suc (keys_drawn example_session)\<rparr>)
           \<lparr>id_col = PyInt (int (keys_drawn example_session) + 1), label = py_opt_str None,
            main_table_user_id = PyInt 1, api_key = PyStr ''abc123'', instructions = PyNone,
            created_at = PyDateTime 100, last_used_at = PyNone, total_tokens = PyInt 1000,
            tokens_used = PyInt 0, tokens_remaining = PyInt 1000,
            token_limit_per_day = PyInt 1000\<rparr>
        = Some (IntegrityError (NotNullViolation ''label''))"
    by (simp add: check_row_def example_backend_def too_long_def py_opt_str_def)
  from example_fails [OF t f this] show ?thesis
    by (simp add: example_session_def)
qed

subsection \<open>The two fallbacks of the free-tier default\<close>

text \<open>
  C6: when \<open>FREE_TOKENS\<close> is not set, the creation path resolves the default to the
  integer \<open>1000\<close> and the column defaults of \<open>total_tokens\<close> and \<open>tokens_remaining\<close> are the
  integer \<open>50000\<close>. So an instance built without a daily limit and without token counts is
  inserted with \<open>50000\<close>, and a record made by \<open>create_api_entry\<close> without a limit holds
  \<open>1000\<close>.
\<close>

theorem free_tokens_fallbacks:
  assumes "environ w ''FREE_TOKENS'' = None"
  shows "free_tokens w = Inr 1000
     \<and> token_limit_or_default w None = Inr 1000
     \<and> total_tokens_default (APIList_class w) = PyInt 50000
     \<and> tokens_remaining_default (APIList_class w) = PyInt 50000
     \<and> (\<forall>be kwargs row. token_limit_per_day kwargs = None \<and> total_tokens kwargs = None
            \<and> tokens_remaining kwargs = None
            \<and> insert_row be (APIList_class w) (APIList_init kwargs) = Inr row \<longrightarrow>
          total_tokens row = PyInt 50000 \<and> tokens_remaining row = PyInt 50000)
     \<and> (\<forall>be cls db user_id key instr lbl db' r.
          create_api_entry be cls w db user_id key instr lbl None = Inr (db', r) \<longrightarrow>
          total_tokens r = PyInt 1000 \<and> tokens_remaining r = PyInt 1000)"
proof -
  have a: "free_tokens w = Inr 1000"
    using assms by (rule free_tokens_unset)
  then have b: "token_limit_or_default w None = Inr 1000"
    by (simp add: token_limit_or_default_def)
  have c: "total_tokens_default (APIList_class w) = PyInt 50000"
    "tokens_remaining_default (APIList_class w) = PyInt 50000"
    using assms by (simp_all add: APIList_class_def os_getenv_def)
  have d: "total_tokens row = PyInt 50000 \<and> tokens_remaining row = PyInt 50000"
    if k: "token_limit_per_day kwargs = None \<and> total_tokens kwargs = None
        \<and> tokens_remaining kwargs = None
        \<and> insert_row be (APIList_class w) (APIList_init kwargs) = Inr row"
    for be kwargs row
  proof -
    from k have row: "insert_row be (APIList_class w) (APIList_init kwargs) = Inr row"
      by simp
    note p = bind_row_Inr(8,10) [OF row [unfolded insert_row_def]]
    from k have "total_tokens (APIList_init kwargs) = PyNone"
      "tokens_remaining (APIList_init kwargs) = PyNone"
      by (simp_all add: APIList_init_def base_init_def attr_def)
    with p c have "bind_param be Integer (PyInt 50000) = Inr (total_tokens row)"
      "bind_param be Integer (PyInt 50000) = Inr (tokens_remaining row)"
      by (simp_all add: or_default_def)
    then show ?thesis
      by (auto dest: bind_param_Integer_Inr)
  qed
  have e: "total_tokens r = PyInt 1000 \<and> tokens_remaining r = PyInt 1000"
    if "create_api_entry be cls w db user_id key instr lbl None = Inr (db', r)"
    for be cls db user_id key instr lbl db' r
  proof -
    from create_api_entry_Inr [OF that] b obtain db1 db2 where
      "insert_instance be cls db1 (new_instance user_id key instr lbl 1000) = Inr (db2, r)"
      by auto
    from insert_new_instance(6,7) [OF this] show ?thesis by simp
  qed
  show ?thesis
  proof (intro conjI allI impI)
    show "free_tokens w = Inr 1000" by (rule a)
    show "token_limit_or_default w None = Inr 1000" by (rule b)
    show "total_tokens_default (APIList_class w) = PyInt 50000" by (rule c)
    show "tokens_remaining_default (APIList_class w) = PyInt 50000" by (rule c)
  next
    fix be kwargs row
    assume k: "token_limit_per_day kwargs = None \<and> total_tokens kwargs = None
        \<and> tokens_remaining kwargs = None
        \<and> insert_row be (APIList_class w) (APIList_init kwargs) = Inr row"
    from d [OF k] show "total_tokens row = PyInt 50000" "tokens_remaining row = PyInt 50000"
      by simp_all
  next
    fix be cls db user_id key instr lbl db' r
    assume "create_api_entry be cls w db user_id key instr lbl None = Inr (db', r)"
    from e [OF this] show "total_tokens r = PyInt 1000" "tokens_remaining r = PyInt 1000"
      by simp_all
  qed
qed

text \<open>C6 in the example world, where the environment is empty.\<close>

theorem free_tokens_fallbacks_witness:
  "environ example_world ''FREE_TOKENS'' = None
   \<and> free_tokens example_world = Inr 1000
   \<and> total_tokens_default (APIList_class example_world) = PyInt 50000
   \<and> token_limit_per_day no_kwargs = None \<and> total_tokens no_kwargs = None
   \<and> tokens_remaining no_kwargs = None
   \<and> insert_row example_backend (APIList_class example_world) (APIList_init no_kwargs)
       = Inr \<lparr>id_col = PyNone, label = PyNone, main_table_user_id = PyNone, api_key = PyNone,
              instructions = PyNone, created_at = PyDateTime 100, last_used_at = PyNone,
              total_tokens = PyInt 50000, tokens_used = PyInt 0,
              tokens_remaining = PyInt 50000, token_limit_per_day = PyNone\<rparr>
   \<and> create_api_entry example_backend (APIList_class example_world) example_world
       example_session 1 ''abc123'' None (Some ''first'') None
     = Inr (example_session\<lparr>committed := [example_row 1000], keys_drawn := 1\<rparr>,
            example_row 1000)
   \<and> total_tokens (example_row 1000) = PyInt 1000"
proof -
  have h: "environ example_world ''FREE_TOKENS'' = None"
    by (simp add: example_world_def)
  have k: "token_limit_per_day no_kwargs = None \<and> total_tokens no_kwargs = None
      \<and> tokens_remaining no_kwargs = None"
    by (simp add: no_kwargs_def)
  have "int_fits example_backend 50000"
    by (rule int_fits_example) simp_all
  then have i: "insert_row example_backend (APIList_class example_world) (APIList_init no_kwargs)
       = Inr \<lparr>id_col = PyNone, label = PyNone, main_table_user_id = PyNone, api_key = PyNone,
              instructions = PyNone, created_at = PyDateTime 100, last_used_at = PyNone,
              total_tokens = PyInt 50000, tokens_used = PyInt 0,
              tokens_remaining = PyInt 50000, token_limit_per_day = PyNone\<rparr>"
    by (simp add: insert_row_def bind_row_def and_then_def APIList_init_def base_init_def
        attr_def no_kwargs_def or_default_def APIList_class_def example_world_def os_getenv_def
        bind_param_Integer)
  have "token_limit_or_default example_world None = Inr 1000"
    using free_tokens_fallbacks [OF h] by simp
  moreover have "int_fits example_backend 1000"
    by (rule int_fits_example) simp_all
  ultimately
  have c: "create_api_entry example_backend (APIList_class example_world) example_world
      example_session 1 ''abc123'' None (Some ''first'') None
      = Inr (example_session\<lparr>committed := [example_row 1000], keys_drawn := 1\<rparr>,
             example_row 1000)"
    by (rule example_create)
  from free_tokens_fallbacks [OF h] h k i c show ?thesis
    by (simp add: example_row_def)
qed

subsection \<open>The creation timestamp\<close>

text \<open>A second call, with another key, on the table the first call leaves.\<close>

lemma example_create_second:
  assumes "token_limit_or_default w token_limit = Inr limit" and "int_fits example_backend limit"
  shows "create_api_entry example_backend (APIList_class example_world) w
           (example_session\<lparr>committed := [example_row n], keys_drawn := 1\<rparr>) 1 ''def456'' None
           (Some ''second'') token_limit =
         Inr (example_session\<lparr>committed := [example_row n,
                 (example_row limit)\<lparr>id_col := PyInt 2, label := PyStr ''second'',
                                      api_key := PyStr ''def456''\<rparr>], keys_drawn := 2\<rparr>,
              (example_row limit)\<lparr>id_col := PyInt 2, label := PyStr ''second'',
                                   api_key := PyStr ''def456''\<rparr>)"
proof -
  have "int_fits example_backend 1"
    by (simp add: int_fits_def example_backend_def)
  with assms(2) show ?thesis
    unfolding create_api_entry_eq example_backend_def
    by (simp add: assms(1) example_session_def example_world_def example_row_def
      APIList_class_def check_row_def py_opt_str_def too_long_def insert_instance_def
      insert_row_def bind_row_def and_then_def bind_param_Integer or_default_def
      new_instance_def assign_key_def commit_rows_def table_def fold_val_def numeral_2_eq_2)
qed

text \<open>
  C7: the default of \<open>created_at\<close> is the clock value of the moment the class body ran.
  Any two records created through \<open>create_api_entry\<close> under the same loaded class carry
  that same timestamp, and what a call returns does not depend on the clock at the
  call.
\<close>

theorem created_at_fixed_at_import:
  assumes "create_api_entry be (APIList_class w0) w1 db1 user_id1 key1 instr1 lbl1 token_limit1
             = Inr (db1', r1)"
    and "create_api_entry be (APIList_class w0) w2 db2 user_id2 key2 instr2 lbl2 token_limit2
             = Inr (db2', r2)"
  shows "created_at r1 = created_at r2
     \<and> created_at r1 = PyDateTime (utcnow w0)
     \<and> (\<forall>t. create_api_entry be (APIList_class w0) (w1\<lparr>utcnow := t\<rparr>) db1 user_id1 key1
               instr1 lbl1 token_limit1 = Inr (db1', r1))"
proof -
  from create_api_entry_Inr [OF assms(1)] obtain l1 d1 d1' where
    "insert_instance be (APIList_class w0) d1 (new_instance user_id1 key1 instr1 lbl1 l1)
       = Inr (d1', r1)"
    by blast
  then have a: "created_at r1 = PyDateTime (utcnow w0)"
    by (rule insert_new_instance_class)
  from create_api_entry_Inr [OF assms(2)] obtain l2 d2 d2' where
    "insert_instance be (APIList_class w0) d2 (new_instance user_id2 key2 instr2 lbl2 l2)
       = Inr (d2', r2)"
    by blast
  then have b: "created_at r2 = PyDateTime (utcnow w0)"
    by (rule insert_new_instance_class)
  have "token_limit_or_default (w1\<lparr>utcnow := t\<rparr>) token_limit1
      = token_limit_or_default w1 token_limit1" for t
    by (simp add: token_limit_or_default_def free_tokens_def split: option.splits)
  then have "create_api_entry be (APIList_class w0) (w1\<lparr>utcnow := t\<rparr>) db1 user_id1 key1
      instr1 lbl1 token_limit1 = Inr (db1', r1)" for t
    using assms(1) by (simp add: create_api_entry_eq)
  with a b show ?thesis by simp
qed

text \<open>C7 at a module loaded at time 100 and two calls made at times 200 and 300.\<close>

theorem created_at_fixed_at_import_witness:
  "create_api_entry example_backend (APIList_class example_world)
     (example_world\<lparr>utcnow := 200\<rparr>) example_session 1 ''abc123'' None (Some ''first'')
     (Some 10)
     = Inr (example_session\<lparr>committed := [example_row 10], keys_drawn := 1\<rparr>, example_row 10)
   \<and> create_api_entry example_backend (APIList_class example_world)
       (example_world\<lparr>utcnow := 300\<rparr>)
       (example_session\<lparr>committed := [example_row 10], keys_drawn := 1\<rparr>) 1 ''def456'' None
       (Some ''second'') (Some 20)
     = Inr (example_session\<lparr>committed := [example_row 10,
               (example_row 20)\<lparr>id_col := PyInt 2, label := PyStr ''second'',
                                 api_key := PyStr ''def456''\<rparr>], keys_drawn := 2\<rparr>,
            (example_row 20)\<lparr>id_col := PyInt 2, label := PyStr ''second'',
                              api_key := PyStr ''def456''\<rparr>)
   \<and> created_at (example_row 10) = PyDateTime 100
   \<and> created_at ((example_row 20)\<lparr>id_col := PyInt 2, label := PyStr ''second'',
                                     api_key := PyStr ''def456''\<rparr>) = PyDateTime 100"
proof -
  have t1: "token_limit_or_default (example_world\<lparr>utcnow := 200\<rparr>) (Some 10) = Inr 10"
    and t2: "token_limit_or_default (example_world\<lparr>utcnow := 300\<rparr>) (Some 20) = Inr 20"
    by (simp_all add: token_limit_or_default_def)
  have f: "int_fits example_backend 10" "int_fits example_backend 20"
    by (rule int_fits_example, simp, simp)+
  have c1: "create_api_entry example_backend (APIList_class example_world)
     (example_world\<lparr>utcnow := 200\<rparr>) example_session 1 ''abc123'' None (Some ''first'')
     (Some 10)
     = Inr (example_session\<lparr>committed := [example_row 10], keys_drawn := 1\<rparr>, example_row 10)"
    using t1 f(1) by (rule example_create)
  have c2: "create_api_entry example_backend (APIList_class example_world)
       (example_world\<lparr>utcnow := 300\<rparr>)
       (example_session\<lparr>committed := [example_row 10], keys_drawn := 1\<rparr>) 1 ''def456'' None
       (Some ''second'') (Some 20)
     = Inr (example_session\<lparr>committed := [example_row 10,
               (example_row 20)\<lparr>id_col := PyInt 2, label := PyStr ''second'',
                                 api_key := PyStr ''def456''\<rparr>], keys_drawn := 2\<rparr>,
            (example_row 20)\<lparr>id_col := PyInt 2, label := PyStr ''second'',
                              api_key := PyStr ''def456''\<rparr>)"
    using t2 f(2) by (rule example_create_second)
  from created_at_fixed_at_import [OF c1 c2] c1 c2 show ?thesis
    by (simp add: example_world_def example_row_def)
qed

subsection \<open>A limit of zero\<close>



subsection \<open>The daily cap is always set\<close>

text \<open>
  C10: every record \<open>create_api_entry\<close> returns has an integer in
  \<open>token_limit_per_day\<close>, the same integer is in \<open>total_tokens\<close> and in
  \<open>tokens_remaining\<close>, and when \<open>token_limit\<close> is omitted that integer is the free-tier
  default.
\<close>

theorem token_limit_per_day_always_set:
  assumes "create_api_entry be cls w db user_id key instr lbl token_limit = Inr (db', r)"
  shows "\<exists>n. token_limit_per_day r = PyInt n
           \<and> total_tokens r = PyInt n
           \<and> tokens_remaining r = PyInt n
           \<and> (token_limit = None \<longrightarrow> free_tokens w = Inr n)"
proof -
  from create_api_entry_Inr [OF assms] obtain n db1 db2 where
    n: "token_limit_or_default w token_limit = Inr n" and
    one: "insert_instance be cls db1 (new_instance user_id key instr lbl n) = Inr (db2, r)"
    by blast
  from n have "token_limit = None \<longrightarrow> free_tokens w = Inr n"
    by (auto simp: token_limit_or_default_def)
  with insert_new_instance(6,7,8) [OF one] show ?thesis by simp
qed

text \<open>C10 at a call without \<open>token_limit\<close> in the example world.\<close>

theorem token_limit_per_day_always_set_witness:
  "create_api_entry example_backend (APIList_class example_world) example_world example_session
     1 ''abc123'' None (Some ''first'') None
     = Inr (example_session\<lparr>committed := [example_row 1000], keys_drawn := 1\<rparr>,
            example_row 1000)
   \<and> free_tokens example_world = Inr 1000
   \<and> token_limit_per_day (example_row 1000) = PyInt 1000
   \<and> total_tokens (example_row 1000) = PyInt 1000
   \<and> tokens_remaining (example_row 1000) = PyInt 1000"
proof -
  have "token_limit_or_default example_world None = Inr 1000"
    by (simp add: token_limit_or_default_def free_tokens_unset example_world_def)
  moreover have "int_fits example_backend 1000"
    by (rule int_fits_example) simp_all
  ultimately
  have c: "create_api_entry example_backend (APIList_class example_world) example_world
      example_session 1 ''abc123'' None (Some ''first'') None
      = Inr (example_session\<lparr>committed := [example_row 1000], keys_drawn := 1\<rparr>,
             example_row 1000)"
    by (rule example_create)
  from token_limit_per_day_always_set [OF c] c show ?thesis
    by (auto simp: example_row_def)
qed

subsection \<open>Add, commit, refresh\<close>





end
